theory Spec2Isabelle
  imports Complex_Main
begin

section \<open>JavaScript values\<close>

text \<open>
  The client of \<^verbatim>\<open>src/App.js\<close> handles parsed JSON, strings from
  \<^verbatim>\<open>localStorage\<close> and thrown errors. Parsed JSON is the datatype \<open>json\<close>; a
  property that is not there (\<^verbatim>\<open>undefined\<close>) is \<open>None\<close> of \<open>json option\<close>.
  A number is the rational value of a double, an infinity or \<^verbatim>\<open>NaN\<close>; numbers
  are compared by their values, and their product, which a double rounds, is a function
  of the platform. \<^verbatim>\<open>Date.now()\<close> is a whole number of milliseconds, an \<open>int\<close>.
  An object is the list of its own properties, read with \<open>map_of\<close>.
\<close>

datatype jsnum = NaN | PosInf | NegInf | Num rat

datatype json =
    JNull
  | JBool bool
  | JNum jsnum
  | JStr string
  | JArr "json list"
  | JObj "(string \<times> json) list"

record js_error =
  err_name :: string
  err_message :: string

text \<open>Truthiness, as \<^verbatim>\<open>&&\<close>, \<^verbatim>\<open>||\<close>, \<^verbatim>\<open>!\<close> and \<^verbatim>\<open>? :\<close> test it.\<close>

fun truthy :: "json \<Rightarrow> bool" where
  "truthy JNull = False"
| "truthy (JBool b) = b"
| "truthy (JNum n) = (n \<noteq> Num 0 \<and> n \<noteq> NaN)"
| "truthy (JStr s) = (s \<noteq> [])"
| "truthy (JArr xs) = True"
| "truthy (JObj kvs) = True"

text \<open>
  \<^verbatim>\<open>v.k\<close> on a value that is neither \<^verbatim>\<open>null\<close> nor \<^verbatim>\<open>undefined\<close>, for the
  keys the source reads (\<^verbatim>\<open>exp\<close>, \<^verbatim>\<open>error\<close>, \<^verbatim>\<open>message\<close>): no prototype of a
  primitive, an array or a plain object has them, so only an object's own property
  answers.
\<close>

fun get_prop :: "json \<Rightarrow> string \<Rightarrow> json option" where
  "get_prop (JObj kvs) k = map_of kvs k"
| "get_prop v k = None"

text \<open>\<^verbatim>\<open>a > b\<close> on numbers: false as soon as one side is \<^verbatim>\<open>NaN\<close>.\<close>

fun js_gt :: "jsnum \<Rightarrow> jsnum \<Rightarrow> bool" where
  "js_gt (Num a) (Num b) = (a > b)"
| "js_gt PosInf (Num b) = True"
| "js_gt PosInf NegInf = True"
| "js_gt (Num a) NegInf = True"
| "js_gt a b = False"

text \<open>\<^verbatim>\<open>s.split(sep)\<close> for a one-character separator, and \<^verbatim>\<open>xs[i]\<close>.\<close>

fun split_on :: "char \<Rightarrow> string \<Rightarrow> string list" where
  "split_on sep [] = [[]]"
| "split_on sep (c # cs) =
     (if c = sep then [] # split_on sep cs
      else (case split_on sep cs of
              [] \<Rightarrow> [[c]]
            | x # xs \<Rightarrow> (c # x) # xs))"

fun index :: "'a list \<Rightarrow> nat \<Rightarrow> 'a option" where
  "index [] i = None"
| "index (x # xs) 0 = Some x"
| "index (x # xs) (Suc i) = index xs i"

text \<open>\<^verbatim>\<open>s.includes(sub)\<close>.\<close>

fun str_includes :: "string \<Rightarrow> string \<Rightarrow> bool" where
  "str_includes [] sub = (sub = [])"
| "str_includes (c # cs) sub = (take (length sub) (c # cs) = sub \<or> str_includes cs sub)"

text \<open>The decimal digits of a number, as a template literal prints it.\<close>

definition digit :: "nat \<Rightarrow> char" where
  "digit d = (''0123456789'' ! d)"

fun string_of_nat :: "nat \<Rightarrow> string" where
  "string_of_nat n =
     (if n < 10 then [digit n] else string_of_nat (n div 10) @ [digit (n mod 10)])"

declare string_of_nat.simps [simp del]

section \<open>The platform\<close>

text \<open>
  The functions of the browser that the source calls and does not define are parameters.
  \<open>multiply\<close> is the product \<^verbatim>\<open>a * b\<close> of two numbers, rounded as the platform
  rounds it. \<open>atob\<close> answers \<open>None\<close> where the browser throws \<^verbatim>\<open>InvalidCharacterError\<close>;
  \<open>JSON_parse\<close> answers \<open>Inl m\<close> where it throws a \<^verbatim>\<open>SyntaxError\<close> with message
  \<open>m\<close>; \<open>ToNumber_object\<close> is the numeric coercion of a string, an array or an object
  and \<open>ToString_object\<close> the string coercion of a number, an array or an object
  (both \<open>None\<close> where the coercion throws a \<^verbatim>\<open>TypeError\<close>, whose message is
  \<open>coerce_msg\<close>); \<open>null_read_msg k\<close> is the message of the \<^verbatim>\<open>TypeError\<close>
  thrown by reading property \<open>k\<close> of \<^verbatim>\<open>null\<close>.
\<close>

record platform =
  multiply :: "jsnum \<Rightarrow> jsnum \<Rightarrow> jsnum"
  atob :: "string \<Rightarrow> string option"
  JSON_parse :: "string \<Rightarrow> string + json"
  JSON_stringify :: "json \<Rightarrow> string"
  ToNumber_object :: "json \<Rightarrow> jsnum option"
  ToString_object :: "json \<Rightarrow> string option"
  null_read_msg :: "string \<Rightarrow> string"
  coerce_msg :: string
  atob_msg :: string

definition json_parse :: "platform \<Rightarrow> string \<Rightarrow> js_error + json" where
  "json_parse P s =
     (case JSON_parse P s of
        Inl m \<Rightarrow> Inl \<lparr>err_name = ''SyntaxError'', err_message = m\<rparr>
      | Inr v \<Rightarrow> Inr v)"

definition js_atob :: "platform \<Rightarrow> string option \<Rightarrow> js_error + string" where
  "js_atob P arg =
     (case atob P (case arg of None \<Rightarrow> ''undefined'' | Some s \<Rightarrow> s) of
        None \<Rightarrow> Inl \<lparr>err_name = ''InvalidCharacterError'', err_message = atob_msg P\<rparr>
      | Some decoded \<Rightarrow> Inr decoded)"

text \<open>\<^verbatim>\<open>v.k\<close> where \<open>v\<close> may be \<^verbatim>\<open>null\<close>: reading a property of \<^verbatim>\<open>null\<close> throws.\<close>

definition read_prop :: "platform \<Rightarrow> json \<Rightarrow> string \<Rightarrow> js_error + json option" where
  "read_prop P v k =
     (if v = JNull then Inl \<lparr>err_name = ''TypeError'', err_message = null_read_msg P k\<rparr>
      else Inr (get_prop v k))"

fun ToNumber :: "platform \<Rightarrow> json option \<Rightarrow> js_error + jsnum" where
  "ToNumber P None = Inr NaN"
| "ToNumber P (Some JNull) = Inr (Num 0)"
| "ToNumber P (Some (JBool b)) = Inr (Num (if b then 1 else 0))"
| "ToNumber P (Some (JNum n)) = Inr n"
| "ToNumber P (Some v) =
     (case ToNumber_object P v of
        None \<Rightarrow> Inl \<lparr>err_name = ''TypeError'', err_message = coerce_msg P\<rparr>
      | Some n \<Rightarrow> Inr n)"

fun ToString :: "platform \<Rightarrow> json \<Rightarrow> js_error + string" where
  "ToString P (JStr s) = Inr s"
| "ToString P JNull = Inr ''null''"
| "ToString P (JBool b) = Inr (if b then ''true'' else ''false'')"
| "ToString P v =
     (case ToString_object P v of
        None \<Rightarrow> Inl \<lparr>err_name = ''TypeError'', err_message = coerce_msg P\<rparr>
      | Some s \<Rightarrow> Inr s)"

section \<open>Browser state\<close>

text \<open>
  \<^verbatim>\<open>localStorage\<close> maps keys to strings. \<open>reloads\<close> counts the calls of
  \<^verbatim>\<open>window.location.reload()\<close>, and \<open>requests\<close> is the log of the calls of
  \<^verbatim>\<open>fetch\<close>, each with its URL and its configuration.
\<close>

type_synonym storage = "string \<rightharpoonup> string"

record config =
  cfg_headers :: "(string \<times> string) list"
  cfg_method :: "string option"
  cfg_body :: "string option"

record browser =
  localStorage :: storage
  reloads :: nat
  requests :: "(string \<times> config) list"

definition getItem :: "browser \<Rightarrow> string \<Rightarrow> string option" where
  "getItem br k = localStorage br k"

definition setItem :: "string \<Rightarrow> string \<Rightarrow> browser \<Rightarrow> browser" where
  "setItem k v br = br\<lparr>localStorage := (localStorage br)(k \<mapsto> v)\<rparr>"

definition removeItem :: "string \<Rightarrow> browser \<Rightarrow> browser" where
  "removeItem k br = br\<lparr>localStorage := (localStorage br)(k := None)\<rparr>"

definition reload :: "browser \<Rightarrow> browser" where
  "reload br = br\<lparr>reloads := Suc (reloads br)\<rparr>"

section \<open>Session Store: \<^verbatim>\<open>AuthProvider\<close>\<close>

text \<open>
  The two \<^verbatim>\<open>useState\<close> cells of \<^verbatim>\<open>AuthProvider\<close>. The session is absent while
  \<open>user\<close> is falsy: \<^verbatim>\<open>App\<close> renders \<^verbatim>\<open>user ? <Dashboard /> : <AuthPage />\<close>.
\<close>

record auth =
  user :: json
  loading :: bool

definition auth_init :: auth where
  "auth_init = \<lparr>user = JNull, loading = True\<rparr>"

text \<open>
  \<^verbatim>\<open>JSON.parse(atob(token.split('.')[1]))\<close>. A token with no second segment gives
  \<^verbatim>\<open>undefined\<close>, which \<^verbatim>\<open>atob\<close> reads as the string \<^verbatim>\<open>"undefined"\<close>.
\<close>

definition tokenPayload :: "platform \<Rightarrow> string \<Rightarrow> js_error + json" where
  "tokenPayload P token =
     (case js_atob P (index (split_on CHR ''.'' token) 1) of
        Inl e \<Rightarrow> Inl e
      | Inr decoded \<Rightarrow> json_parse P decoded)"

text \<open>\<^verbatim>\<open>tokenPayload.exp * 1000 > Date.now()\<close>.\<close>

definition not_expired :: "platform \<Rightarrow> int \<Rightarrow> json \<Rightarrow> js_error + bool" where
  "not_expired P now payload =
     (case read_prop P payload ''exp'' of
        Inl e \<Rightarrow> Inl e
      | Inr claim \<Rightarrow>
          (case ToNumber P claim of
             Inl e \<Rightarrow> Inl e
           | Inr n \<Rightarrow> Inr (js_gt (multiply P n (Num 1000)) (Num (of_int now)))))"

text \<open>The body of the \<^verbatim>\<open>try\<close> block of the startup effect; \<open>Inl\<close> is a throw.\<close>

definition initialize_try ::
  "platform \<Rightarrow> int \<Rightarrow> string \<Rightarrow> string \<Rightarrow> browser \<times> auth \<Rightarrow> js_error + browser \<times> auth" where
  "initialize_try P now token userData s =
     (case tokenPayload P token of
        Inl e \<Rightarrow> Inl e
      | Inr payload \<Rightarrow>
          (case not_expired P now payload of
             Inl e \<Rightarrow> Inl e
           | Inr True \<Rightarrow>
               (case json_parse P userData of
                  Inl e \<Rightarrow> Inl e
                | Inr u \<Rightarrow> Inr (fst s, (snd s)\<lparr>user := u\<rparr>))
           | Inr False \<Rightarrow>
               Inr (removeItem ''user'' (removeItem ''token'' (fst s)), snd s)))"

text \<open>
  The startup effect of \<^verbatim>\<open>AuthProvider\<close> (\<open>initialize()\<close> in the specification), run
  at time \<open>now\<close>. \<^verbatim>\<open>getItem\<close> answers \<^verbatim>\<open>null\<close> (\<open>None\<close>) for a missing key,
  so the guard \<^verbatim>\<open>token && userData\<close> holds when both items are there and neither
  is the empty string. The \<^verbatim>\<open>catch\<close> block removes both items; the
  \<^verbatim>\<open>console.error\<close> there changes no state.
\<close>

definition setLoading :: "bool \<Rightarrow> browser \<times> auth \<Rightarrow> browser \<times> auth" where
  "setLoading b s = (fst s, (snd s)\<lparr>loading := b\<rparr>)"

definition initialize :: "platform \<Rightarrow> int \<Rightarrow> browser \<times> auth \<Rightarrow> browser \<times> auth" where
  "initialize P now s =
     setLoading False
       (case (getItem (fst s) ''token'', getItem (fst s) ''user'') of
          (Some token, Some userData) \<Rightarrow>
            if token \<noteq> [] \<and> userData \<noteq> [] then
              (case initialize_try P now token userData s of
                 Inr s' \<Rightarrow> s'
               | Inl error \<Rightarrow> (removeItem ''user'' (removeItem ''token'' (fst s)), snd s))
            else s
        | _ \<Rightarrow> s)"

text \<open>\<^verbatim>\<open>logout\<close>: both items removed, \<^verbatim>\<open>setUser(null)\<close>.\<close>

definition logout :: "browser \<times> auth \<Rightarrow> browser \<times> auth" where
  "logout s = (removeItem ''user'' (removeItem ''token'' (fst s)), (snd s)\<lparr>user := JNull\<rparr>)"

section \<open>API Gateway: \<^verbatim>\<open>apiRequest\<close>\<close>

text \<open>
  \<^verbatim>\<open>process.env.REACT_APP_API_URL || 'http://localhost:5000/api'\<close>, the variable
  being the parameter \<open>env\<close>.
\<close>

definition API_URL :: "string option \<Rightarrow> string" where
  "API_URL env =
     (case env of
        None \<Rightarrow> ''http://localhost:5000/api''
      | Some u \<Rightarrow> if u \<noteq> [] then u else ''http://localhost:5000/api'')"

text \<open>
  The second argument of \<^verbatim>\<open>apiRequest\<close>; a field that the caller leaves out is
  \<open>None\<close>. The callers of the source pass \<^verbatim>\<open>method\<close> and \<^verbatim>\<open>body\<close> only.
\<close>

record options =
  opt_method :: "string option"
  opt_body :: "string option"
  opt_headers :: "(string \<times> string) list option"

text \<open>
  \<^verbatim>\<open>{ headers: { 'Content-Type': ..., ...(token && { Authorization: ... }) }, ...options }\<close>:
  a \<^verbatim>\<open>headers\<close> field of the options replaces the headers built here.
\<close>

definition request_config :: "string option \<Rightarrow> options \<Rightarrow> config" where
  "request_config token options =
     \<lparr>cfg_headers =
        (case opt_headers options of
           Some hs \<Rightarrow> hs
         | None \<Rightarrow>
             (''Content-Type'', ''application/json'') #
             (case token of
                None \<Rightarrow> []
              | Some t \<Rightarrow> if t \<noteq> [] then [(''Authorization'', ''Bearer '' @ t)] else [])),
      cfg_method = opt_method options,
      cfg_body = opt_body options\<rparr>"

record response =
  status :: nat
  statusText :: string
  body :: string

definition ok :: "response \<Rightarrow> bool" where
  "ok r = (200 \<le> status r \<and> status r \<le> 299)"

text \<open>
  The network answers a request with a response, or \<^verbatim>\<open>fetch\<close> rejects with an
  error. The promise that \<^verbatim>\<open>apiRequest\<close> returns is fulfilled with parsed JSON, or
  with \<^verbatim>\<open>undefined\<close> (\<open>Fulfilled None\<close>), or rejected with an error.
\<close>

type_synonym network = "string \<Rightarrow> config \<Rightarrow> js_error + response"

datatype outcome = Fulfilled "json option" | Rejected js_error

definition Error :: "string \<Rightarrow> js_error" where
  "Error m = \<lparr>err_name = ''Error'', err_message = m\<rparr>"

text \<open>
  \<^verbatim>\<open>data.error?.message\<close>: reading \<^verbatim>\<open>error\<close> of \<^verbatim>\<open>null\<close> throws, and
  \<^verbatim>\<open>?.\<close> answers \<^verbatim>\<open>undefined\<close> when \<^verbatim>\<open>data.error\<close> is \<^verbatim>\<open>null\<close> or
  \<^verbatim>\<open>undefined\<close>.
\<close>

definition data_error_message :: "platform \<Rightarrow> json \<Rightarrow> js_error + json option" where
  "data_error_message P data =
     (case read_prop P data ''error'' of
        Inl e \<Rightarrow> Inl e
      | Inr None \<Rightarrow> Inr None
      | Inr (Some e) \<Rightarrow> Inr (if e = JNull then None else get_prop e ''message''))"

text \<open>
  \<^verbatim>\<open>new Error(m || fallback)\<close>: the left operand when it is truthy, converted to a
  string by the \<^verbatim>\<open>Error\<close> constructor, else the fallback.
\<close>

definition new_Error_or :: "platform \<Rightarrow> json option \<Rightarrow> string \<Rightarrow> js_error" where
  "new_Error_or P m fallback =
     (case m of
        None \<Rightarrow> Error fallback
      | Some v \<Rightarrow>
          if truthy v then (case ToString P v of Inl e \<Rightarrow> e | Inr s \<Rightarrow> Error s)
          else Error fallback)"

definition http_fallback :: "response \<Rightarrow> string" where
  "http_fallback r = ''HTTP '' @ string_of_nat (status r) @ '': '' @ statusText r"

text \<open>The \<^verbatim>\<open>try\<close> block; \<open>Rejected\<close> is what it throws.\<close>

definition apiRequest_try ::
  "platform \<Rightarrow> network \<Rightarrow> string \<Rightarrow> config \<Rightarrow> browser \<Rightarrow> outcome \<times> browser" where
  "apiRequest_try P fetch url config br =
     (let br' = br\<lparr>requests := requests br @ [(url, config)]\<rparr> in
      case fetch url config of
        Inl e \<Rightarrow> (Rejected e, br')
      | Inr response \<Rightarrow>
          (case json_parse P (body response) of
             Inl e \<Rightarrow> (Rejected e, br')
           | Inr data \<Rightarrow>
               if \<not> ok response then
                 if status response = 401 \<or> status response = 403 then
                   (Fulfilled None, reload (removeItem ''user'' (removeItem ''token'' br')))
                 else
                   (case data_error_message P data of
                      Inl e \<Rightarrow> (Rejected e, br')
                    | Inr m \<Rightarrow> (Rejected (new_Error_or P m (http_fallback response)), br'))
               else (Fulfilled (Some data), br')))"

text \<open>The \<^verbatim>\<open>catch\<close> block: what it throws for the error it caught.\<close>

definition apiRequest_catch :: "js_error \<Rightarrow> js_error" where
  "apiRequest_catch error =
     (if err_name error = ''TypeError'' \<and> str_includes (err_message error) ''fetch''
      then Error ''Unable to connect to server. Please check your connection.''
      else error)"

definition apiRequest ::
  "platform \<Rightarrow> string option \<Rightarrow> network \<Rightarrow> string \<Rightarrow> options \<Rightarrow> browser \<Rightarrow> outcome \<times> browser" where
  "apiRequest P env fetch endpoint options br =
     (let token = getItem br ''token'';
          config = request_config token options
      in case apiRequest_try P fetch (API_URL env @ endpoint) config br of
           (Rejected error, br') \<Rightarrow> (Rejected (apiRequest_catch error), br')
         | (Fulfilled data, br') \<Rightarrow> (Fulfilled data, br'))"


section \<open>Transient messages: \<^verbatim>\<open>useMessages\<close>\<close>

text \<open>
  A message carries the fields \<^verbatim>\<open>id\<close>, \<^verbatim>\<open>message\<close> and \<^verbatim>\<open>type\<close>. A pending
  \<^verbatim>\<open>setTimeout\<close> is its callback and its delay in milliseconds.
\<close>

record message =
  msg_id :: int
  msg_message :: string
  msg_type :: string

datatype callback = RemoveById int | SwitchToLogin

record ui =
  messages :: "message list"
  timeouts :: "(callback \<times> nat) list"

definition addMessage :: "int \<Rightarrow> string \<Rightarrow> string \<Rightarrow> 'a ui_scheme \<Rightarrow> 'a ui_scheme" where
  "addMessage now m t u =
     (let ident = now in
      u\<lparr>messages := messages u @ [\<lparr>msg_id = ident, msg_message = m, msg_type = t\<rparr>],
        timeouts := timeouts u @ [(RemoveById ident, 5000)]\<rparr>)"

definition removeMessage :: "int \<Rightarrow> 'a ui_scheme \<Rightarrow> 'a ui_scheme" where
  "removeMessage ident u =
     u\<lparr>messages := filter (\<lambda>msg. msg_id msg \<noteq> ident) (messages u)\<rparr>"

definition clearMessages :: "'a ui_scheme \<Rightarrow> 'a ui_scheme" where
  "clearMessages u = u\<lparr>messages := []\<rparr>"

text \<open>
  A timeout that fires runs its callback. The one \<^verbatim>\<open>addMessage\<close> schedules filters
  the list by the identifier it captured; \<^verbatim>\<open>onSwitchToLogin\<close> belongs to the parent
  component and leaves this state alone.
\<close>

fun fire :: "callback \<Rightarrow> 'a ui_scheme \<Rightarrow> 'a ui_scheme" where
  "fire (RemoveById ident) u =
     u\<lparr>messages := filter (\<lambda>msg. msg_id msg \<noteq> ident) (messages u)\<rparr>"
| "fire SwitchToLogin u = u"

section \<open>\<^verbatim>\<open>RegisterForm\<close>\<close>

record formData =
  name :: string
  email :: string
  password :: string
  confirmPassword :: string

record register_form = ui +
  formData :: formData
  form_loading :: bool
  passwordStrength :: nat

definition is_lower :: "char \<Rightarrow> bool" where
  "is_lower c = (97 \<le> (of_char c :: nat) \<and> (of_char c :: nat) \<le> 122)"

definition is_upper :: "char \<Rightarrow> bool" where
  "is_upper c = (65 \<le> (of_char c :: nat) \<and> (of_char c :: nat) \<le> 90)"

definition is_digit :: "char \<Rightarrow> bool" where
  "is_digit c = (48 \<le> (of_char c :: nat) \<and> (of_char c :: nat) \<le> 57)"

definition validatePassword :: "string \<Rightarrow> nat" where
  "validatePassword pw =
     (if length pw \<ge> 8 then 1 else 0) +
     (if list_ex is_lower pw then 1 else 0) +
     (if list_ex is_upper pw then 1 else 0) +
     (if list_ex is_digit pw then 1 else 0) +
     (if list_ex (\<lambda>c. c \<in> set ''@$!%*?&'') pw then 1 else 0)"

text \<open>
  \<^verbatim>\<open>handleSubmit\<close> of the registration form, submitted at time \<open>now\<close>; \<open>later\<close> is
  the time at which the awaited request has settled.
\<close>

definition register_handleSubmit ::
  "platform \<Rightarrow> string option \<Rightarrow> network \<Rightarrow> int \<Rightarrow> int \<Rightarrow> browser \<times> register_form
     \<Rightarrow> browser \<times> register_form" where
  "register_handleSubmit P env fetch now later s =
     (let br = fst s; f = snd s; fd = formData f in
      if password fd \<noteq> confirmPassword fd then
        (br, addMessage now ''Passwords do not match'' ''error'' f)
      else if passwordStrength f < 5 then
        (br, addMessage now
           ''Password must contain at least 8 characters with uppercase, lowercase, number, and special character''
           ''error'' f)
      else
        (case apiRequest P env fetch ''/register''
                \<lparr>opt_method = Some ''POST'',
                 opt_body = Some (JSON_stringify P
                   (JObj [(''name'', JStr (name fd)), (''email'', JStr (email fd)),
                          (''password'', JStr (password fd))])),
                 opt_headers = None\<rparr> br of
           (Fulfilled data, br') \<Rightarrow>
             (let f1 = addMessage later ''Registration successful! Please log in.'' ''success''
                         (f\<lparr>form_loading := True\<rparr>);
                  f2 = f1\<lparr>formData := \<lparr>name = [], email = [], password = [], confirmPassword = []\<rparr>\<rparr>;
                  f3 = f2\<lparr>timeouts := timeouts f2 @ [(SwitchToLogin, 2000)]\<rparr>
              in (br', f3\<lparr>form_loading := False\<rparr>))
         | (Rejected err, br') \<Rightarrow>
             (br', (addMessage later (err_message err) ''error'' (f\<lparr>form_loading := True\<rparr>))
                     \<lparr>form_loading := False\<rparr>)))"

section \<open>A concrete platform and a concrete browser\<close>

text \<open>
  A fragment of a real browser, enough to run the definitions: \<open>atob\<close> decodes the
  payload segment of \<open>demo_token\<close> and the Base64 of \<^verbatim>\<open>not json\<close>, and
  \<open>JSON_parse\<close> reads the texts named here and rejects every other one. \<open>multiply\<close> is the exact product where a double has it,
  on whole numbers with a product of at most \<open>2 ^ 53\<close>; elsewhere it is left
  \<open>NaN\<close>, and no statement below evaluates it there. The coercions and
  \<open>JSON_stringify\<close> are constant functions, whose results no statement below depends on.
\<close>

definition demo_payload_text :: string where
  \<open>demo_payload_text = ''{"exp":2000000000}''\<close>

definition demo_user_text :: string where
  \<open>demo_user_text = ''{"name":"Pat","role":"patient"}''\<close>

definition demo_profile :: json where
  "demo_profile = JObj [(''name'', JStr ''Pat''), (''role'', JStr ''patient'')]"

definition empty_message_text :: string where
  \<open>empty_message_text = ''{"error":{"message":""}}''\<close>

definition slot_taken_text :: string where
  \<open>slot_taken_text = ''{"error":{"message":"Slot already booked"}}''\<close>

definition null_text :: string where
  "null_text = ''null''"

definition mimic_text :: string where
  \<open>mimic_text =
     ''{"error":{"message":"Unable to connect to server. Please check your connection."}}''\<close>

definition demo_platform :: platform where
  "demo_platform =
     \<lparr>multiply = (\<lambda>a b.
        case (a, b) of
          (Num x, Num y) \<Rightarrow>
            if x \<in> \<int> \<and> y \<in> \<int> \<and> \<bar>x * y\<bar> \<le> 2 ^ 53 then Num (x * y) else NaN
        | _ \<Rightarrow> NaN),
      atob = (\<lambda>s.
        if s = ''eyJleHAiOjIwMDAwMDAwMDB9'' then Some demo_payload_text
        else if s = ''bm90IGpzb24='' then Some ''not json''
        else None),
      JSON_parse = (\<lambda>s.
        if s = demo_payload_text then Inr (JObj [(''exp'', JNum (Num 2000000000))])
        else if s = demo_user_text then Inr demo_profile
        else if s = empty_message_text then
          Inr (JObj [(''error'', JObj [(''message'', JStr [])])])
        else if s = slot_taken_text then
          Inr (JObj [(''error'', JObj [(''message'', JStr ''Slot already booked'')])])
        else if s = mimic_text then
          Inr (JObj [(''error'', JObj [(''message'',
            JStr ''Unable to connect to server. Please check your connection.'')])])
        else if s = null_text then Inr JNull
        else if s = ''{}'' then Inr (JObj [])
        else Inl ''Unexpected token in JSON''),
      JSON_stringify = (\<lambda>v. ''{}''),
      ToNumber_object = (\<lambda>v. Some NaN),
      ToString_object = (\<lambda>v. Some ''[object Object]''),
      null_read_msg = (\<lambda>k. ''Cannot read properties of null''),
      coerce_msg = ''Cannot convert object to primitive value'',
      atob_msg = ''The string to be decoded is not correctly encoded.''\<rparr>"

definition demo_token :: string where
  "demo_token = ''h.eyJleHAiOjIwMDAwMDAwMDB9.s''"

definition demo_browser :: browser where
  "demo_browser =
     \<lparr>localStorage = [''token'' \<mapsto> demo_token, ''user'' \<mapsto> demo_user_text],
      reloads = 0, requests = []\<rparr>"

definition garbage_browser :: browser where
  "garbage_browser = setItem ''token'' ''garbage'' demo_browser"

definition bad_base64_browser :: browser where
  "bad_base64_browser = setItem ''token'' ''h.@@@.s'' demo_browser"

definition bad_json_browser :: browser where
  "bad_json_browser = setItem ''token'' ''h.bm90IGpzb24=.s'' demo_browser"



definition no_network :: network where
  "no_network url config = Inl \<lparr>err_name = ''TypeError'', err_message = ''Failed to fetch''\<rparr>"

definition no_options :: options where
  "no_options = \<lparr>opt_method = None, opt_body = None, opt_headers = None\<rparr>"

definition demo_form :: register_form where
  "demo_form =
     \<lparr>messages = [], timeouts = [],
      formData = \<lparr>name = ''Pat'', email = ''patient@example.com'',
                  password = ''Passw0rd!'', confirmPassword = ''Passw0rd?''\<rparr>,
      form_loading = False, passwordStrength = 5\<rparr>"

definition demo_ui :: ui where
  "demo_ui = \<lparr>messages = [\<lparr>msg_id = 1699999999000, msg_message = ''Login successful!'',
                            msg_type = ''success''\<rparr>], timeouts = []\<rparr>"




definition garbage_only_browser :: browser where
  "garbage_only_browser =
     \<lparr>localStorage = [''token'' \<mapsto> ''garbage''], reloads = 0, requests = []\<rparr>"

definition garbage_empty_user_browser :: browser where
  "garbage_empty_user_browser = setItem ''user'' [] garbage_browser"

definition empty_token_browser :: browser where
  "empty_token_browser = setItem ''token'' [] demo_browser"



definition matching_form :: register_form where
  "matching_form =
     \<lparr>messages = [], timeouts = [],
      formData = \<lparr>name = ''Pat'', email = ''patient@example.com'',
                  password = ''Passw0rd!'', confirmPassword = ''Passw0rd!''\<rparr>,
      form_loading = False, passwordStrength = 5\<rparr>"

definition mimic_503 :: network where
  "mimic_503 url config =
     Inr \<lparr>status = 503, statusText = ''Service Unavailable'', body = mimic_text\<rparr>"

text \<open>Networks that answer every request alike.\<close>

definition html_401 :: network where
  "html_401 url config =
     Inr \<lparr>status = 401, statusText = ''Unauthorized'',
          body = ''<html>401 Authorization Required</html>''\<rparr>"

definition json_401 :: network where
  "json_401 url config = Inr \<lparr>status = 401, statusText = ''Unauthorized'', body = ''{}''\<rparr>"

definition html_500 :: network where
  "html_500 url config =
     Inr \<lparr>status = 500, statusText = ''Internal Server Error'',
          body = ''<html>500 Internal Server Error</html>''\<rparr>"

definition json_500 :: network where
  "json_500 url config =
     Inr \<lparr>status = 500, statusText = ''Internal Server Error'', body = ''{}''\<rparr>"

definition empty_message_400 :: network where
  "empty_message_400 url config =
     Inr \<lparr>status = 400, statusText = ''Bad Request'', body = empty_message_text\<rparr>"

definition slot_taken_409 :: network where
  "slot_taken_409 url config =
     Inr \<lparr>status = 409, statusText = ''Conflict'', body = slot_taken_text\<rparr>"

definition load_failed :: network where
  "load_failed url config = Inl \<lparr>err_name = ''TypeError'', err_message = ''Load failed''\<rparr>"

text \<open>The browser once \<^verbatim>\<open>apiRequest\<close> has called \<^verbatim>\<open>fetch\<close>: the call is in the log.\<close>

definition logged :: "string option \<Rightarrow> string \<Rightarrow> options \<Rightarrow> browser \<Rightarrow> browser" where
  "logged env endpoint options br =
     br\<lparr>requests := requests br @
       [(API_URL env @ endpoint, request_config (getItem br ''token'') options)]\<rparr>"

section \<open>Storage and platform lemmas\<close>

lemma removeItem_simps:
  "getItem (removeItem k br) k' = (if k' = k then None else getItem br k')"
  "reloads (removeItem k br) = reloads br"
  "requests (removeItem k br) = requests br"
  by (simp_all add: getItem_def removeItem_def)

lemma getItem_setItem:
  "getItem (setItem k v br) k' = (if k' = k then Some v else getItem br k')"
  by (simp add: getItem_def setItem_def)

lemma removeItem_setItem: "removeItem k (setItem k v br) = removeItem k br"
  by (simp add: removeItem_def setItem_def)

lemma demo_browser_items:
  "getItem demo_browser ''token'' = Some demo_token"
  "getItem demo_browser ''user'' = Some demo_user_text"
  "demo_token \<noteq> []" "demo_user_text \<noteq> []"
  by (simp_all add: getItem_def demo_browser_def demo_token_def demo_user_text_def)

lemma demo_parse:
  "JSON_parse demo_platform demo_payload_text = Inr (JObj [(''exp'', JNum (Num 2000000000))])"
  "JSON_parse demo_platform demo_user_text = Inr demo_profile"
  "JSON_parse demo_platform ''{}'' = Inr (JObj [])"
  "JSON_parse demo_platform empty_message_text =
     Inr (JObj [(''error'', JObj [(''message'', JStr [])])])"
  "JSON_parse demo_platform slot_taken_text =
     Inr (JObj [(''error'', JObj [(''message'', JStr ''Slot already booked'')])])"
  "JSON_parse demo_platform mimic_text =
     Inr (JObj [(''error'', JObj [(''message'',
       JStr ''Unable to connect to server. Please check your connection.'')])])"
  "JSON_parse demo_platform null_text = Inr JNull"
  "JSON_parse demo_platform ''not json'' = Inl ''Unexpected token in JSON''"
  "JSON_parse demo_platform ''<html>401 Authorization Required</html>'' =
     Inl ''Unexpected token in JSON''"
  "JSON_parse demo_platform ''<html>500 Internal Server Error</html>'' =
     Inl ''Unexpected token in JSON''"
  by (simp_all add: demo_platform_def demo_payload_text_def demo_user_text_def
      empty_message_text_def slot_taken_text_def mimic_text_def null_text_def)

lemma demo_atob:
  "atob demo_platform ''eyJleHAiOjIwMDAwMDAwMDB9'' = Some demo_payload_text"
  "atob demo_platform ''undefined'' = None"
  "atob demo_platform ''@@@'' = None"
  "atob demo_platform ''bm90IGpzb24='' = Some ''not json''"
  by (simp_all add: demo_platform_def)

lemma getItem_logged: "getItem (logged env endpoint options br) k = getItem br k"
  by (simp add: logged_def getItem_def)

lemma reloads_logged: "reloads (logged env endpoint options br) = reloads br"
  by (simp add: logged_def)

section \<open>Session Store: startup and logout\<close>

lemma initialize_no_token:
  "getItem (fst s) ''token'' = None \<Longrightarrow> initialize P now s = setLoading False s"
  by (simp add: initialize_def)

lemma initialize_no_user:
  "getItem (fst s) ''user'' = None \<Longrightarrow> initialize P now s = setLoading False s"
  by (simp add: initialize_def split: option.splits)

lemma logout_logout: "logout (logout s) = logout s"
  by (simp add: logout_def removeItem_def)

text \<open>
  C7. \<^verbatim>\<open>logout()\<close> is an idempotent teardown. From any state, one call leaves
  neither \<^verbatim>\<open>token\<close> nor \<^verbatim>\<open>user\<close> in storage and sets the session to
  \<^verbatim>\<open>null\<close>; a second call changes nothing; and the startup initialization run after
  a logout, on any platform and at any time, leaves the session \<^verbatim>\<open>null\<close> and the
  browser as the logout left it.
\<close>

theorem logout_idempotent:
  "getItem (fst (logout s)) ''token'' = None
   \<and> getItem (fst (logout s)) ''user'' = None
   \<and> user (snd (logout s)) = JNull
   \<and> logout (logout s) = logout s
   \<and> user (snd (initialize P now (logout s))) = JNull
   \<and> fst (initialize P now (logout s)) = fst (logout s)"
proof -
  have t: "getItem (fst (logout s)) ''token'' = None"
    by (simp add: logout_def removeItem_simps)
  have u: "getItem (fst (logout s)) ''user'' = None"
    by (simp add: logout_def removeItem_simps)
  have a: "user (snd (logout s)) = JNull"
    by (simp add: logout_def)
  have i: "initialize P now (logout s) = setLoading False (logout s)"
    using t by (rule initialize_no_token)
  show ?thesis
    using t u a i by (simp add: logout_logout setLoading_def)
qed

theorem logout_idempotent_witness:
  "getItem (fst (logout (demo_browser, \<lparr>user = demo_profile, loading = False\<rparr>))) ''token'' = None
   \<and> user (snd (initialize demo_platform 1700000000000
        (logout (demo_browser, \<lparr>user = demo_profile, loading = False\<rparr>)))) = JNull"
  using logout_idempotent
    [of "(demo_browser, \<lparr>user = demo_profile, loading = False\<rparr>)" demo_platform 1700000000000]
  by simp

lemma not_expired_num:
  "get_prop payload ''exp'' = Some (JNum e) \<Longrightarrow>
   not_expired P now payload = Inr (js_gt (multiply P e (Num 1000)) (Num (of_int now)))"
  by (cases payload) (auto simp: not_expired_def read_prop_def)


lemma tokenPayload_decoded:
  assumes "atob P (case index (split_on CHR ''.'' token) 1 of
                     None \<Rightarrow> ''undefined'' | Some seg \<Rightarrow> seg) = Some decoded"
    and "JSON_parse P decoded = Inr payload"
  shows "tokenPayload P token = Inr payload"
  using assms by (simp add: tokenPayload_def js_atob_def json_parse_def)



lemma initialize_guard_fails:
  "getItem (fst s) ''token'' = Some [] \<or> getItem (fst s) ''user'' = Some [] \<Longrightarrow>
   initialize P now s = setLoading False s"
  by (auto simp: initialize_def split: option.splits)

lemma initialize_caught:
  assumes "getItem br ''token'' = Some token" "token \<noteq> []"
    and "getItem br ''user'' = Some userData" "userData \<noteq> []"
    and "initialize_try P now token userData (br, a) = Inl e"
  shows "initialize P now (br, a) =
           (removeItem ''user'' (removeItem ''token'' br), a\<lparr>loading := False\<rparr>)"
  using assms by (simp add: initialize_def setLoading_def)





lemma tokenPayload_undecodable:
  assumes "case index (split_on CHR ''.'' token) 1 of
             None \<Rightarrow> atob P ''undefined'' = None
           | Some seg \<Rightarrow>
               (case atob P seg of
                  None \<Rightarrow> True
                | Some decoded \<Rightarrow> (case JSON_parse P decoded of Inl m \<Rightarrow> True | Inr v \<Rightarrow> False))"
  shows "\<exists>e. tokenPayload P token = Inl e"
  using assms
  by (auto simp: tokenPayload_def js_atob_def json_parse_def split: option.splits sum.splits)

lemma initialize_expired:
  assumes "getItem br ''token'' = Some token" "token \<noteq> []"
    and "getItem br ''user'' = Some userData" "userData \<noteq> []"
    and "tokenPayload P token = Inr payload" "get_prop payload ''exp'' = Some (JNum e)"
    and "\<not> js_gt (multiply P e (Num 1000)) (Num (of_int now))"
  shows "initialize P now (br, a) =
           (removeItem ''user'' (removeItem ''token'' br), a\<lparr>loading := False\<rparr>)"
  using assms by (simp add: initialize_def initialize_try_def setLoading_def not_expired_num)

text \<open>
  C4, as the code has it. Both items are in storage at startup, neither empty, and the
  payload of the token cannot be decoded: the token has no second segment
  (\<^verbatim>\<open>atob\<close> then receives \<^verbatim>\<open>undefined\<close> and rejects it), or \<^verbatim>\<open>atob\<close> rejects
  the segment, or \<^verbatim>\<open>JSON.parse\<close> rejects what \<^verbatim>\<open>atob\<close> decoded. Then the startup
  initialization returns a state (the \<^verbatim>\<open>catch\<close> block takes every throw): neither
  \<^verbatim>\<open>token\<close> nor \<^verbatim>\<open>user\<close> is left in storage and the session is left as it was,
  \<^verbatim>\<open>null\<close> at startup. That state is the one an expired token in place of the
  malformed one leads to.
\<close>

theorem initialize_malformed_token:
  assumes tok: "getItem br ''token'' = Some token" "token \<noteq> []"
    and usr: "getItem br ''user'' = Some userData" "userData \<noteq> []"
    and bad: "case index (split_on CHR ''.'' token) 1 of
             None \<Rightarrow> atob P ''undefined'' = None
           | Some seg \<Rightarrow>
               (case atob P seg of
                  None \<Rightarrow> True
                | Some decoded \<Rightarrow> (case JSON_parse P decoded of Inl m \<Rightarrow> True | Inr v \<Rightarrow> False))"
  shows "initialize P now (br, a) =
           (removeItem ''user'' (removeItem ''token'' br), a\<lparr>loading := False\<rparr>)
    \<and> getItem (fst (initialize P now (br, a))) ''token'' = None
    \<and> getItem (fst (initialize P now (br, a))) ''user'' = None
    \<and> user (snd (initialize P now (br, a))) = user a
    \<and> user (snd (initialize P now (br, auth_init))) = JNull
    \<and> (\<forall>token' decoded payload e.
          token' \<noteq> []
          \<and> atob P (case index (split_on CHR ''.'' token') 1 of
                       None \<Rightarrow> ''undefined'' | Some seg \<Rightarrow> seg) = Some decoded
          \<and> JSON_parse P decoded = Inr payload
          \<and> get_prop payload ''exp'' = Some (JNum e)
          \<and> \<not> js_gt (multiply P e (Num 1000)) (Num (of_int now)) \<longrightarrow>
          initialize P now (setItem ''token'' token' br, a) = initialize P now (br, a))"
proof -
  obtain err where "tokenPayload P token = Inl err"
    using tokenPayload_undecodable [OF bad] by blast
  then have thrown: "initialize_try P now token userData (br, a') = Inl err" for a'
    by (simp add: initialize_try_def)
  have r: "initialize P now (br, a') =
      (removeItem ''user'' (removeItem ''token'' br), a'\<lparr>loading := False\<rparr>)" for a'
    using tok usr thrown by (rule initialize_caught)
  have same: "initialize P now (setItem ''token'' token' br, a) = initialize P now (br, a)"
    if "token' \<noteq> []"
      "atob P (case index (split_on CHR ''.'' token') 1 of
                 None \<Rightarrow> ''undefined'' | Some seg \<Rightarrow> seg) = Some decoded"
      "JSON_parse P decoded = Inr payload"
      "get_prop payload ''exp'' = Some (JNum e)"
      "\<not> js_gt (multiply P e (Num 1000)) (Num (of_int now))" for token' decoded payload e
  proof -
    have dec: "tokenPayload P token' = Inr payload"
      using that(2,3) by (rule tokenPayload_decoded)
    have "initialize P now (setItem ''token'' token' br, a) =
        (removeItem ''user'' (removeItem ''token'' (setItem ''token'' token' br)),
         a\<lparr>loading := False\<rparr>)"
    proof (rule initialize_expired [where token = token' and userData = userData
          and payload = payload and e = e])
      show "getItem (setItem ''token'' token' br) ''token'' = Some token'"
        by (simp add: getItem_setItem)
      show "getItem (setItem ''token'' token' br) ''user'' = Some userData"
        using usr by (simp add: getItem_setItem)
    qed (use that dec usr in simp_all)
    then show ?thesis by (simp add: r removeItem_setItem)
  qed
  show ?thesis
    using same by (simp add: r removeItem_simps auth_init_def)
qed

theorem initialize_malformed_token_witness:
  "getItem garbage_browser ''token'' = Some ''garbage''
   \<and> getItem garbage_browser ''user'' = Some demo_user_text
   \<and> index (split_on CHR ''.'' ''garbage'') 1 = None
   \<and> atob demo_platform ''undefined'' = None
   \<and> getItem (fst (initialize demo_platform 1700000000000 (garbage_browser, auth_init))) ''token'' = None
   \<and> getItem (fst (initialize demo_platform 1700000000000 (garbage_browser, auth_init))) ''user'' = None
   \<and> snd (initialize demo_platform 1700000000000 (garbage_browser, auth_init)) =
        \<lparr>user = JNull, loading = False\<rparr>
   \<and> index (split_on CHR ''.'' ''h.@@@.s'') 1 = Some ''@@@''
   \<and> atob demo_platform ''@@@'' = None
   \<and> getItem (fst (initialize demo_platform 1700000000000 (bad_base64_browser, auth_init))) ''token'' = None
   \<and> getItem (fst (initialize demo_platform 1700000000000 (bad_base64_browser, auth_init))) ''user'' = None
   \<and> index (split_on CHR ''.'' ''h.bm90IGpzb24=.s'') 1 = Some ''bm90IGpzb24=''
   \<and> atob demo_platform ''bm90IGpzb24='' = Some ''not json''
   \<and> JSON_parse demo_platform ''not json'' = Inl ''Unexpected token in JSON''
   \<and> getItem (fst (initialize demo_platform 1700000000000 (bad_json_browser, auth_init))) ''token'' = None
   \<and> getItem (fst (initialize demo_platform 1700000000000 (bad_json_browser, auth_init))) ''user'' = None"
proof -
  have j: "getItem bad_json_browser ''token'' = Some ''h.bm90IGpzb24=.s''"
    "getItem bad_json_browser ''user'' = Some demo_user_text"
    by (simp_all add: bad_json_browser_def getItem_setItem demo_browser_items)
  have js: "index (split_on CHR ''.'' ''h.bm90IGpzb24=.s'') 1 = Some ''bm90IGpzb24=''"
    "atob demo_platform ''bm90IGpzb24='' = Some ''not json''"
    "JSON_parse demo_platform ''not json'' = Inl ''Unexpected token in JSON''"
    by (simp_all add: demo_atob demo_parse)
  have 3: "initialize demo_platform 1700000000000 (bad_json_browser, auth_init) =
      (removeItem ''user'' (removeItem ''token'' bad_json_browser), auth_init\<lparr>loading := False\<rparr>)"
    using initialize_malformed_token [OF j(1) _ j(2) demo_browser_items(4),
        of demo_platform 1700000000000 auth_init]
    by (simp add: js)
  have g: "getItem garbage_browser ''token'' = Some ''garbage''"
    "getItem garbage_browser ''user'' = Some demo_user_text"
    by (simp_all add: garbage_browser_def getItem_setItem demo_browser_items)
  have b: "getItem bad_base64_browser ''token'' = Some ''h.@@@.s''"
    "getItem bad_base64_browser ''user'' = Some demo_user_text"
    by (simp_all add: bad_base64_browser_def getItem_setItem demo_browser_items)
  have gs: "index (split_on CHR ''.'' ''garbage'') 1 = None"
    "atob demo_platform ''undefined'' = None"
    by (simp_all add: demo_atob)
  have bs: "index (split_on CHR ''.'' ''h.@@@.s'') 1 = Some ''@@@''"
    "atob demo_platform ''@@@'' = None"
    by (simp_all add: demo_atob)
  have 1: "initialize demo_platform 1700000000000 (garbage_browser, auth_init) =
      (removeItem ''user'' (removeItem ''token'' garbage_browser), auth_init\<lparr>loading := False\<rparr>)"
    using initialize_malformed_token [OF g(1) _ g(2) demo_browser_items(4),
        of demo_platform 1700000000000 auth_init]
    by (simp add: gs)
  have 2: "initialize demo_platform 1700000000000 (bad_base64_browser, auth_init) =
      (removeItem ''user'' (removeItem ''token'' bad_base64_browser), auth_init\<lparr>loading := False\<rparr>)"
    using initialize_malformed_token [OF b(1) _ b(2) demo_browser_items(4),
        of demo_platform 1700000000000 auth_init]
    by (simp add: bs)
  show ?thesis
    unfolding 1 2 3 by (simp add: g b j gs bs js removeItem_simps auth_init_def)
qed

text \<open>
  C4 as stated fails where the guard \<^verbatim>\<open>token && userData\<close> does not hold, for the
  token is then not looked at: a malformed token with no user item, or with an empty
  one, stays in storage, and so does the user item beside an empty token, which has no
  payload segment either.
\<close>

theorem initialize_malformed_token_counterexample:
  "getItem garbage_only_browser ''token'' = Some ''garbage''
   \<and> getItem garbage_only_browser ''user'' = None
   \<and> index (split_on CHR ''.'' ''garbage'') 1 = None
   \<and> getItem (fst (initialize demo_platform 1700000000000 (garbage_only_browser, auth_init)))
        ''token'' = Some ''garbage''
   \<and> getItem garbage_empty_user_browser ''user'' = Some []
   \<and> getItem (fst (initialize demo_platform 1700000000000
        (garbage_empty_user_browser, auth_init))) ''token'' = Some ''garbage''
   \<and> getItem empty_token_browser ''token'' = Some []
   \<and> index (split_on CHR ''.'' []) 1 = None
   \<and> getItem (fst (initialize demo_platform 1700000000000 (empty_token_browser, auth_init)))
        ''user'' = Some demo_user_text"
proof -
  have g: "getItem garbage_only_browser ''token'' = Some ''garbage''"
    "getItem garbage_only_browser ''user'' = None"
    by (simp_all add: garbage_only_browser_def getItem_def)
  have e: "getItem garbage_empty_user_browser ''token'' = Some ''garbage''"
    "getItem garbage_empty_user_browser ''user'' = Some []"
    by (simp_all add: garbage_empty_user_browser_def garbage_browser_def getItem_setItem)
  have t: "getItem empty_token_browser ''token'' = Some []"
    "getItem empty_token_browser ''user'' = Some demo_user_text"
    by (simp_all add: empty_token_browser_def getItem_setItem demo_browser_items)
  have 1: "initialize demo_platform 1700000000000 (garbage_only_browser, auth_init) =
      setLoading False (garbage_only_browser, auth_init)"
    by (rule initialize_no_user) (simp add: g)
  have 2: "initialize demo_platform 1700000000000 (garbage_empty_user_browser, auth_init) =
      setLoading False (garbage_empty_user_browser, auth_init)"
    by (rule initialize_guard_fails) (simp add: e)
  have 3: "initialize demo_platform 1700000000000 (empty_token_browser, auth_init) =
      setLoading False (empty_token_browser, auth_init)"
    by (rule initialize_guard_fails) (simp add: t)
  show ?thesis
    unfolding 1 2 3 by (simp add: g e t setLoading_def)
qed

section \<open>API Gateway: responses and errors\<close>

lemma apiRequest_rejected_fetch:
  assumes "fetch (API_URL env @ endpoint) (request_config (getItem br ''token'') options) = Inl e"
  shows "apiRequest P env fetch endpoint options br =
           (Rejected (apiRequest_catch e), logged env endpoint options br)"
  using assms by (simp add: apiRequest_def apiRequest_try_def logged_def)

lemma apiRequest_unparseable:
  assumes "fetch (API_URL env @ endpoint) (request_config (getItem br ''token'') options) = Inr r"
    and "JSON_parse P (body r) = Inl m"
  shows "apiRequest P env fetch endpoint options br =
           (Rejected \<lparr>err_name = ''SyntaxError'', err_message = m\<rparr>,
            logged env endpoint options br)"
  using assms
  by (simp add: apiRequest_def apiRequest_try_def logged_def json_parse_def apiRequest_catch_def)

lemma apiRequest_unauthorized:
  assumes "fetch (API_URL env @ endpoint) (request_config (getItem br ''token'') options) = Inr r"
    and "JSON_parse P (body r) = Inr data"
    and "status r = 401 \<or> status r = 403"
  shows "apiRequest P env fetch endpoint options br =
           (Fulfilled None,
            reload (removeItem ''user'' (removeItem ''token'' (logged env endpoint options br))))"
  using assms
  by (auto simp: apiRequest_def apiRequest_try_def logged_def json_parse_def ok_def)

lemma apiRequest_application_error:
  assumes "fetch (API_URL env @ endpoint) (request_config (getItem br ''token'') options) = Inr r"
    and "JSON_parse P (body r) = Inr data"
    and "\<not> ok r" "status r \<noteq> 401" "status r \<noteq> 403"
    and "data_error_message P data = Inr m"
  shows "apiRequest P env fetch endpoint options br =
           (Rejected (apiRequest_catch (new_Error_or P m (http_fallback r))),
            logged env endpoint options br)"
  using assms
  by (simp add: apiRequest_def apiRequest_try_def logged_def json_parse_def)

lemma apiRequest_catch_Error:
  "apiRequest_catch \<lparr>err_name = ''Error'', err_message = m\<rparr> =
     \<lparr>err_name = ''Error'', err_message = m\<rparr>"
  by (simp add: apiRequest_catch_def)

lemma json_401_answer:
  "apiRequest demo_platform env json_401 endpoint options br =
     (Fulfilled None,
      reload (removeItem ''user'' (removeItem ''token'' (logged env endpoint options br))))"
proof (rule apiRequest_unauthorized
    [where r = "\<lparr>status = 401, statusText = ''Unauthorized'', body = ''{}''\<rparr>"
      and data = "JObj []"])
  show "json_401 (API_URL env @ endpoint) (request_config (getItem br ''token'') options) =
      Inr \<lparr>status = 401, statusText = ''Unauthorized'', body = ''{}''\<rparr>"
    by (simp add: json_401_def)
qed (simp_all add: demo_parse)

text \<open>
  C1, as the code has it. The network answers a call of \<^verbatim>\<open>apiRequest\<close>, whatever the
  endpoint and the options, with status 401 or 403 and a body that \<^verbatim>\<open>JSON.parse\<close>
  accepts. Then \<^verbatim>\<open>token\<close> and \<^verbatim>\<open>user\<close> are removed from storage, the page is
  reloaded once, and the call returns neither data nor an error: its promise is
  fulfilled with \<^verbatim>\<open>undefined\<close>.
\<close>

theorem unauthorized_clears_session:
  assumes "fetch (API_URL env @ endpoint) (request_config (getItem br ''token'') options) = Inr r"
    and "status r = 401 \<or> status r = 403"
    and "JSON_parse P (body r) = Inr data"
  shows "fst (apiRequest P env fetch endpoint options br) = Fulfilled None
    \<and> getItem (snd (apiRequest P env fetch endpoint options br)) ''token'' = None
    \<and> getItem (snd (apiRequest P env fetch endpoint options br)) ''user'' = None
    \<and> reloads (snd (apiRequest P env fetch endpoint options br)) = Suc (reloads br)"
proof -
  have "apiRequest P env fetch endpoint options br =
      (Fulfilled None,
       reload (removeItem ''user'' (removeItem ''token'' (logged env endpoint options br))))"
    using assms by (rule_tac apiRequest_unauthorized [where r = r and data = data])
  then show ?thesis
    by (simp add: removeItem_def reload_def getItem_def logged_def)
qed

theorem unauthorized_clears_session_witness:
  "fst (apiRequest demo_platform None json_401 ''/my-bookings'' no_options demo_browser) =
     Fulfilled None
   \<and> getItem demo_browser ''token'' = Some demo_token
   \<and> getItem (snd (apiRequest demo_platform None json_401 ''/my-bookings'' no_options
        demo_browser)) ''token'' = None
   \<and> getItem (snd (apiRequest demo_platform None json_401 ''/my-bookings'' no_options
        demo_browser)) ''user'' = None
   \<and> reloads (snd (apiRequest demo_platform None json_401 ''/my-bookings'' no_options
        demo_browser)) = 1"
proof -
  have f: "json_401 (API_URL None @ ''/my-bookings'')
      (request_config (getItem demo_browser ''token'') no_options) =
      Inr \<lparr>status = 401, statusText = ''Unauthorized'', body = ''{}''\<rparr>"
    by (simp add: json_401_def)
  have p: "JSON_parse demo_platform
      (body \<lparr>status = 401, statusText = ''Unauthorized'', body = ''{}''\<rparr>) = Inr (JObj [])"
    by (simp add: demo_parse)
  show ?thesis
    using unauthorized_clears_session [where fetch = json_401 and env = None
        and endpoint = "''/my-bookings''" and options = no_options and br = demo_browser
        and P = demo_platform, OF f _ p]
    by (simp add: demo_browser_items) (simp add: demo_browser_def)
qed

text \<open>
  C1 as stated fails twice. Where the body of the 401 response is not JSON,
  \<^verbatim>\<open>response.json()\<close>, awaited before the status is looked at, throws: its
  \<^verbatim>\<open>SyntaxError\<close> reaches the caller, both items stay in storage and nothing is
  reloaded. Where the body is JSON, the bare \<^verbatim>\<open>return\<close> fulfils the promise with
  \<^verbatim>\<open>undefined\<close>, a resolved value that the caller receives: the registration form,
  submitted with a strong password and its equal confirmation, goes on to its message
  of success.
\<close>

theorem unauthorized_counterexample:
  "fst (apiRequest demo_platform None html_401 ''/my-bookings'' no_options demo_browser) =
     Rejected \<lparr>err_name = ''SyntaxError'', err_message = ''Unexpected token in JSON''\<rparr>
   \<and> getItem (snd (apiRequest demo_platform None html_401 ''/my-bookings'' no_options
        demo_browser)) ''token'' = Some demo_token
   \<and> getItem (snd (apiRequest demo_platform None html_401 ''/my-bookings'' no_options
        demo_browser)) ''user'' = Some demo_user_text
   \<and> reloads (snd (apiRequest demo_platform None html_401 ''/my-bookings'' no_options
        demo_browser)) = 0
   \<and> fst (apiRequest demo_platform None json_401 ''/my-bookings'' no_options demo_browser) =
       Fulfilled None
   \<and> password (formData matching_form) = confirmPassword (formData matching_form)
   \<and> passwordStrength matching_form = 5
   \<and> messages (snd (register_handleSubmit demo_platform None json_401 1700000000000
        1700000000100 (demo_browser, matching_form))) =
       [\<lparr>msg_id = 1700000000100, msg_message = ''Registration successful! Please log in.'',
         msg_type = ''success''\<rparr>]"
proof -
  have f: "html_401 (API_URL None @ ''/my-bookings'')
      (request_config (getItem demo_browser ''token'') no_options) =
      Inr \<lparr>status = 401, statusText = ''Unauthorized'',
           body = ''<html>401 Authorization Required</html>''\<rparr>"
    by (simp add: html_401_def)
  have p: "JSON_parse demo_platform
      (body \<lparr>status = 401, statusText = ''Unauthorized'',
             body = ''<html>401 Authorization Required</html>''\<rparr>) =
      Inl ''Unexpected token in JSON''"
    by (simp add: demo_parse)
  have html: "apiRequest demo_platform None html_401 ''/my-bookings'' no_options demo_browser =
      (Rejected \<lparr>err_name = ''SyntaxError'', err_message = ''Unexpected token in JSON''\<rparr>,
       logged None ''/my-bookings'' no_options demo_browser)"
    using f p by (rule apiRequest_unparseable)
  have form: "password (formData matching_form) = confirmPassword (formData matching_form)"
    "passwordStrength matching_form = 5"
    by (simp_all add: matching_form_def)
  have submit: "messages (snd (register_handleSubmit demo_platform None json_401 1700000000000
        1700000000100 (demo_browser, matching_form))) =
       [\<lparr>msg_id = 1700000000100, msg_message = ''Registration successful! Please log in.'',
         msg_type = ''success''\<rparr>]"
    by (simp add: register_handleSubmit_def form json_401_answer addMessage_def Let_def)
      (simp add: matching_form_def)
  show ?thesis
    by (simp add: html json_401_answer getItem_logged reloads_logged demo_browser_items
        form submit) (simp add: demo_browser_def)
qed

lemma data_error_message_missing:
  assumes "\<forall>e. map_of kvs ''error'' = Some e \<longrightarrow> get_prop e ''message'' = None"
  shows "data_error_message P (JObj kvs) = Inr None"
  using assms by (auto simp: data_error_message_def read_prop_def split: option.splits)

text \<open>
  C3, as the code has it. The response has a status outside 200..299 other than 401 and
  403, and its body parses to an object with no nested error message: no \<^verbatim>\<open>error\<close>
  property, or one without a \<^verbatim>\<open>message\<close>. Then \<^verbatim>\<open>apiRequest\<close> is rejected with
  an \<^verbatim>\<open>Error\<close> whose message is \<^verbatim>\<open>HTTP <status>: <statusText>\<close>.
\<close>

theorem fallback_message:
  assumes "fetch (API_URL env @ endpoint) (request_config (getItem br ''token'') options) = Inr r"
    and "\<not> ok r" "status r \<noteq> 401" "status r \<noteq> 403"
    and "JSON_parse P (body r) = Inr (JObj kvs)"
    and "\<forall>e. map_of kvs ''error'' = Some e \<longrightarrow> get_prop e ''message'' = None"
  shows "fst (apiRequest P env fetch endpoint options br) =
           Rejected \<lparr>err_name = ''Error'',
                     err_message = ''HTTP '' @ string_of_nat (status r) @ '': '' @ statusText r\<rparr>"
proof -
  have m: "data_error_message P (JObj kvs) = Inr None"
    using assms(6) by (rule data_error_message_missing)
  have "apiRequest P env fetch endpoint options br =
      (Rejected (apiRequest_catch (new_Error_or P None (http_fallback r))),
       logged env endpoint options br)"
    using assms(1,5,2,3,4) m
    by (rule_tac apiRequest_application_error [where r = r and data = "JObj kvs"])
  then show ?thesis
    by (simp add: new_Error_or_def apiRequest_catch_Error http_fallback_def Error_def)
qed

theorem fallback_message_witness:
  "\<not> ok \<lparr>status = 500, statusText = ''Internal Server Error'', body = ''{}''\<rparr>
   \<and> JSON_parse demo_platform ''{}'' = Inr (JObj [])
   \<and> fst (apiRequest demo_platform None json_500 ''/slots'' no_options demo_browser) =
       Rejected \<lparr>err_name = ''Error'', err_message = ''HTTP 500: Internal Server Error''\<rparr>"
proof -
  have f: "json_500 (API_URL None @ ''/slots'')
      (request_config (getItem demo_browser ''token'') no_options) =
      Inr \<lparr>status = 500, statusText = ''Internal Server Error'', body = ''{}''\<rparr>"
    by (simp add: json_500_def)
  have n: "\<not> ok \<lparr>status = 500, statusText = ''Internal Server Error'', body = ''{}''\<rparr>"
    by (simp add: ok_def)
  have p: "JSON_parse demo_platform
      (body \<lparr>status = 500, statusText = ''Internal Server Error'', body = ''{}''\<rparr>) =
      Inr (JObj [])"
    by (simp add: demo_parse)
  have e: "\<forall>e. map_of ([] :: (string \<times> json) list) ''error'' = Some e \<longrightarrow>
      get_prop e ''message'' = None"
    by simp
  show ?thesis
    using fallback_message [where fetch = json_500 and env = None and endpoint = "''/slots''"
        and options = no_options and br = demo_browser and P = demo_platform, OF f n _ _ p e]
    by (simp add: n demo_parse string_of_nat.simps digit_def)
qed

text \<open>
  C3 as stated fails for a body that is not JSON: the rejection carries the
  \<^verbatim>\<open>SyntaxError\<close> of the parser, not the fallback message.
\<close>

theorem unparseable_body_counterexample:
  "fst (apiRequest demo_platform None html_500 ''/slots'' no_options demo_browser) =
     Rejected \<lparr>err_name = ''SyntaxError'', err_message = ''Unexpected token in JSON''\<rparr>
   \<and> fst (apiRequest demo_platform None html_500 ''/slots'' no_options demo_browser) \<noteq>
     Rejected \<lparr>err_name = ''Error'', err_message = ''HTTP 500: Internal Server Error''\<rparr>"
proof -
  have f: "html_500 (API_URL None @ ''/slots'')
      (request_config (getItem demo_browser ''token'') no_options) =
      Inr \<lparr>status = 500, statusText = ''Internal Server Error'',
           body = ''<html>500 Internal Server Error</html>''\<rparr>"
    by (simp add: html_500_def)
  have p: "JSON_parse demo_platform
      (body \<lparr>status = 500, statusText = ''Internal Server Error'',
             body = ''<html>500 Internal Server Error</html>''\<rparr>) =
      Inl ''Unexpected token in JSON''"
    by (simp add: demo_parse)
  show ?thesis
    by (simp add: apiRequest_unparseable [where fetch = html_500 and env = None
          and endpoint = "''/slots''" and options = no_options and br = demo_browser
          and P = demo_platform, OF f p])
qed

text \<open>
  C5, as the code has it. The response has a status outside 200..299 other than 401 and
  403, and its body parses to \<^verbatim>\<open>{error: {message: X}}\<close> for a string \<open>X\<close> that
  is not empty. Then \<^verbatim>\<open>apiRequest\<close> is rejected with an \<^verbatim>\<open>Error\<close> whose
  message is \<open>X\<close>.
\<close>

theorem server_message:
  assumes "fetch (API_URL env @ endpoint) (request_config (getItem br ''token'') options) = Inr r"
    and "\<not> ok r" "status r \<noteq> 401" "status r \<noteq> 403"
    and "JSON_parse P (body r) = Inr (JObj [(''error'', JObj [(''message'', JStr X)])])"
    and "X \<noteq> []"
  shows "fst (apiRequest P env fetch endpoint options br) =
           Rejected \<lparr>err_name = ''Error'', err_message = X\<rparr>"
proof -
  have m: "data_error_message P (JObj [(''error'', JObj [(''message'', JStr X)])]) =
      Inr (Some (JStr X))"
    by (simp add: data_error_message_def read_prop_def)
  have "apiRequest P env fetch endpoint options br =
      (Rejected (apiRequest_catch (new_Error_or P (Some (JStr X)) (http_fallback r))),
       logged env endpoint options br)"
    using assms(1,5,2,3,4) m
    by (rule_tac apiRequest_application_error
        [where r = r and data = "JObj [(''error'', JObj [(''message'', JStr X)])]"])
  then show ?thesis
    using assms(6) by (simp add: new_Error_or_def apiRequest_catch_Error Error_def)
qed

theorem server_message_witness:
  "\<not> ok \<lparr>status = 409, statusText = ''Conflict'', body = slot_taken_text\<rparr>
   \<and> JSON_parse demo_platform slot_taken_text =
       Inr (JObj [(''error'', JObj [(''message'', JStr ''Slot already booked'')])])
   \<and> fst (apiRequest demo_platform None slot_taken_409 ''/book'' no_options demo_browser) =
       Rejected \<lparr>err_name = ''Error'', err_message = ''Slot already booked''\<rparr>"
proof -
  have f: "slot_taken_409 (API_URL None @ ''/book'')
      (request_config (getItem demo_browser ''token'') no_options) =
      Inr \<lparr>status = 409, statusText = ''Conflict'', body = slot_taken_text\<rparr>"
    by (simp add: slot_taken_409_def)
  have n: "\<not> ok \<lparr>status = 409, statusText = ''Conflict'', body = slot_taken_text\<rparr>"
    by (simp add: ok_def)
  have p: "JSON_parse demo_platform
      (body \<lparr>status = 409, statusText = ''Conflict'', body = slot_taken_text\<rparr>) =
      Inr (JObj [(''error'', JObj [(''message'', JStr ''Slot already booked'')])])"
    by (simp add: demo_parse)
  show ?thesis
    using server_message [where fetch = slot_taken_409 and env = None
        and endpoint = "''/book''" and options = no_options and br = demo_browser
        and P = demo_platform, OF f n _ _ p]
    by (simp add: n demo_parse)
qed

text \<open>
  C5 as stated fails for the empty string: it is falsy, so \<^verbatim>\<open>||\<close> takes the
  fallback, and the message is \<^verbatim>\<open>HTTP 400: Bad Request\<close>.
\<close>

theorem empty_message_counterexample:
  "JSON_parse demo_platform empty_message_text =
     Inr (JObj [(''error'', JObj [(''message'', JStr [])])])
   \<and> fst (apiRequest demo_platform None empty_message_400 ''/book'' no_options demo_browser) =
       Rejected \<lparr>err_name = ''Error'', err_message = ''HTTP 400: Bad Request''\<rparr>
   \<and> fst (apiRequest demo_platform None empty_message_400 ''/book'' no_options demo_browser) \<noteq>
       Rejected \<lparr>err_name = ''Error'', err_message = []\<rparr>"
proof -
  have f: "empty_message_400 (API_URL None @ ''/book'')
      (request_config (getItem demo_browser ''token'') no_options) =
      Inr \<lparr>status = 400, statusText = ''Bad Request'', body = empty_message_text\<rparr>"
    by (simp add: empty_message_400_def)
  have n: "\<not> ok \<lparr>status = 400, statusText = ''Bad Request'', body = empty_message_text\<rparr>"
    by (simp add: ok_def)
  have p: "JSON_parse demo_platform
      (body \<lparr>status = 400, statusText = ''Bad Request'', body = empty_message_text\<rparr>) =
      Inr (JObj [(''error'', JObj [(''message'', JStr [])])])"
    by (simp add: demo_parse)
  have m: "data_error_message demo_platform (JObj [(''error'', JObj [(''message'', JStr [])])]) =
      Inr (Some (JStr []))"
    by (simp add: data_error_message_def read_prop_def)
  have "apiRequest demo_platform None empty_message_400 ''/book'' no_options demo_browser =
      (Rejected (apiRequest_catch (new_Error_or demo_platform (Some (JStr []))
          (http_fallback \<lparr>status = 400, statusText = ''Bad Request'',
             body = empty_message_text\<rparr>))),
       logged None ''/book'' no_options demo_browser)"
    using f p n m
    by (rule_tac apiRequest_application_error
        [where r = "\<lparr>status = 400, statusText = ''Bad Request'', body = empty_message_text\<rparr>"
          and data = "JObj [(''error'', JObj [(''message'', JStr [])])]"]) simp_all
  then show ?thesis
    by (simp add: new_Error_or_def apiRequest_catch_Error http_fallback_def Error_def
        string_of_nat.simps digit_def demo_parse)
qed

text \<open>
  C6, as the code has it. \<^verbatim>\<open>fetch\<close> rejects with a \<^verbatim>\<open>TypeError\<close> whose message
  contains \<^verbatim>\<open>fetch\<close>. Then \<^verbatim>\<open>apiRequest\<close> is rejected with an \<^verbatim>\<open>Error\<close>
  whose message is \<^verbatim>\<open>Unable to connect to server. Please check your connection.\<close>,
  storage is untouched and nothing is reloaded; no fallback message
  \<^verbatim>\<open>HTTP <status>: <statusText>\<close> of an application error equals that message.
\<close>

theorem connectivity_error:
  assumes "fetch (API_URL env @ endpoint) (request_config (getItem br ''token'') options) = Inl e"
    and "err_name e = ''TypeError''"
    and "str_includes (err_message e) ''fetch''"
  shows "fst (apiRequest P env fetch endpoint options br) =
           Rejected \<lparr>err_name = ''Error'',
             err_message = ''Unable to connect to server. Please check your connection.''\<rparr>
    \<and> localStorage (snd (apiRequest P env fetch endpoint options br)) = localStorage br
    \<and> reloads (snd (apiRequest P env fetch endpoint options br)) = reloads br
    \<and> (\<forall>r. http_fallback r \<noteq> ''Unable to connect to server. Please check your connection.'')"
proof -
  have "apiRequest P env fetch endpoint options br =
      (Rejected (apiRequest_catch e), logged env endpoint options br)"
    using assms(1) by (rule apiRequest_rejected_fetch)
  then show ?thesis
    using assms(2,3) by (simp add: apiRequest_catch_def Error_def logged_def http_fallback_def)
qed

theorem connectivity_error_witness:
  "str_includes ''Failed to fetch'' ''fetch''
   \<and> fst (apiRequest demo_platform None no_network ''/slots'' no_options demo_browser) =
       Rejected \<lparr>err_name = ''Error'',
         err_message = ''Unable to connect to server. Please check your connection.''\<rparr>"
proof -
  have f: "no_network (API_URL None @ ''/slots'')
      (request_config (getItem demo_browser ''token'') no_options) =
      Inl \<lparr>err_name = ''TypeError'', err_message = ''Failed to fetch''\<rparr>"
    by (simp add: no_network_def)
  show ?thesis
    using connectivity_error [where fetch = no_network and env = None
        and endpoint = "''/slots''" and options = no_options and br = demo_browser
        and P = demo_platform, OF f]
    by simp
qed

text \<open>
  C6 as stated fails twice. A rejection whose message does not contain \<^verbatim>\<open>fetch\<close>,
  such as the \<^verbatim>\<open>TypeError: Load failed\<close> of WebKit, is thrown again as it is. And
  the error of a transport failure is no kind of its own: it is a plain \<^verbatim>\<open>Error\<close>,
  as an application error is, and an application error whose message from the server is
  the same text is the same error.
\<close>

theorem connectivity_counterexample:
  "\<not> str_includes ''Load failed'' ''fetch''
   \<and> fst (apiRequest demo_platform None load_failed ''/slots'' no_options demo_browser) =
       Rejected \<lparr>err_name = ''TypeError'', err_message = ''Load failed''\<rparr>
   \<and> fst (apiRequest demo_platform None load_failed ''/slots'' no_options demo_browser) \<noteq>
       Rejected \<lparr>err_name = ''Error'',
         err_message = ''Unable to connect to server. Please check your connection.''\<rparr>
   \<and> fst (apiRequest demo_platform None no_network ''/slots'' no_options demo_browser) =
       Rejected \<lparr>err_name = ''Error'',
         err_message = ''Unable to connect to server. Please check your connection.''\<rparr>
   \<and> fst (apiRequest demo_platform None mimic_503 ''/slots'' no_options demo_browser) =
       fst (apiRequest demo_platform None no_network ''/slots'' no_options demo_browser)"
proof -
  have f: "load_failed (API_URL None @ ''/slots'')
      (request_config (getItem demo_browser ''token'') no_options) =
      Inl \<lparr>err_name = ''TypeError'', err_message = ''Load failed''\<rparr>"
    by (simp add: load_failed_def)
  have n: "no_network (API_URL None @ ''/slots'')
      (request_config (getItem demo_browser ''token'') no_options) =
      Inl \<lparr>err_name = ''TypeError'', err_message = ''Failed to fetch''\<rparr>"
    by (simp add: no_network_def)
  have m: "mimic_503 (API_URL None @ ''/slots'')
      (request_config (getItem demo_browser ''token'') no_options) =
      Inr \<lparr>status = 503, statusText = ''Service Unavailable'', body = mimic_text\<rparr>"
    by (simp add: mimic_503_def)
  have d: "data_error_message demo_platform
      (JObj [(''error'', JObj [(''message'',
         JStr ''Unable to connect to server. Please check your connection.'')])]) =
      Inr (Some (JStr ''Unable to connect to server. Please check your connection.''))"
    by (simp add: data_error_message_def read_prop_def)
  have server: "apiRequest demo_platform None mimic_503 ''/slots'' no_options demo_browser =
      (Rejected (apiRequest_catch (new_Error_or demo_platform
          (Some (JStr ''Unable to connect to server. Please check your connection.''))
          (http_fallback
            \<lparr>status = 503, statusText = ''Service Unavailable'', body = mimic_text\<rparr>))),
       logged None ''/slots'' no_options demo_browser)"
    using m _ _ _ _ d
    by (rule apiRequest_application_error) (simp_all add: demo_parse ok_def)
  show ?thesis
    by (simp add: apiRequest_rejected_fetch [where fetch = load_failed, OF f]
        apiRequest_rejected_fetch [where fetch = no_network, OF n] server
        apiRequest_catch_def new_Error_or_def Error_def)
qed

section \<open>Partial persisted state\<close>

lemma apiRequest_try_requests:
  "requests (snd (apiRequest_try P fetch url config br)) = requests br @ [(url, config)]"
  by (simp add: apiRequest_try_def Let_def reload_def removeItem_def
      split: sum.splits option.splits)

lemma apiRequest_requests:
  "requests (snd (apiRequest P env fetch endpoint options br)) =
     requests br @ [(API_URL env @ endpoint, request_config (getItem br ''token'') options)]"
proof -
  obtain out br' where r: "apiRequest_try P fetch (API_URL env @ endpoint)
      (request_config (getItem br ''token'') options) br = (out, br')"
    by (cases "apiRequest_try P fetch (API_URL env @ endpoint)
      (request_config (getItem br ''token'') options) br")
  have "requests br' = requests br @
      [(API_URL env @ endpoint, request_config (getItem br ''token'') options)]"
    using apiRequest_try_requests [of P fetch "API_URL env @ endpoint"
        "request_config (getItem br ''token'') options" br] r by simp
  then show ?thesis
    using r by (cases out) (simp_all add: apiRequest_def)
qed








section \<open>Registration form\<close>

lemma apiRequest_grows:
  "length (requests (snd (apiRequest P env fetch endpoint options br))) =
     Suc (length (requests br))"
  by (simp add: apiRequest_requests)

text \<open>
  C8. The registration form is submitted with a confirmation that differs from the
  password. Then \<^verbatim>\<open>handleSubmit\<close> leaves the browser as it was, so that the log of
  requests has not grown (every \<^verbatim>\<open>apiRequest\<close> adds an entry to it, by
  \<open>apiRequest_grows\<close>), and appends the one message \<^verbatim>\<open>Passwords do not match\<close>,
  of type \<^verbatim>\<open>error\<close>; the form data and the loading flag are unchanged.
\<close>

theorem register_mismatch_no_request:
  assumes "password (formData f) \<noteq> confirmPassword (formData f)"
  shows "fst (register_handleSubmit P env fetch now later (br, f)) = br
    \<and> requests (fst (register_handleSubmit P env fetch now later (br, f))) = requests br
    \<and> messages (snd (register_handleSubmit P env fetch now later (br, f))) =
         messages f @
           [\<lparr>msg_id = now, msg_message = ''Passwords do not match'', msg_type = ''error''\<rparr>]
    \<and> formData (snd (register_handleSubmit P env fetch now later (br, f))) = formData f
    \<and> form_loading (snd (register_handleSubmit P env fetch now later (br, f))) = form_loading f"
  using assms by (simp add: register_handleSubmit_def addMessage_def Let_def)

theorem register_mismatch_no_request_witness:
  "password (formData demo_form) \<noteq> confirmPassword (formData demo_form)
   \<and> passwordStrength demo_form = validatePassword (password (formData demo_form))
   \<and> fst (register_handleSubmit demo_platform None no_network 1700000000000 1700000000100
        (demo_browser, demo_form)) = demo_browser
   \<and> messages (snd (register_handleSubmit demo_platform None no_network 1700000000000
        1700000000100 (demo_browser, demo_form))) =
        [\<lparr>msg_id = 1700000000000, msg_message = ''Passwords do not match'',
          msg_type = ''error''\<rparr>]"
proof -
  have ne: "password (formData demo_form) \<noteq> confirmPassword (formData demo_form)"
    by (simp add: demo_form_def)
  have st: "passwordStrength demo_form = validatePassword (password (formData demo_form))"
    by (simp add: demo_form_def validatePassword_def is_lower_def is_upper_def is_digit_def)
  show ?thesis
    using register_mismatch_no_request [OF ne, of demo_platform None no_network
        1700000000000 1700000000100 demo_browser]
    by (simp add: ne st) (simp add: demo_form_def)
qed

section \<open>Transient messages\<close>

lemma filter_absent:
  "ident \<notin> msg_id ` set ms \<Longrightarrow> filter (\<lambda>msg. msg_id msg \<noteq> ident) ms = ms"
  by (induction ms) auto

text \<open>
  C10. The identifier of a message is the \<^verbatim>\<open>Date.now()\<close> of the call that adds it,
  and the timeout that \<^verbatim>\<open>addMessage\<close> schedules removes by that identifier after
  5000 milliseconds. Two calls in the same millisecond append two messages with equal
  identifiers; \<^verbatim>\<open>removeMessage\<close> with that identifier, and the timeout of either
  message, remove both (and every older message that bears it). After a removal no
  message bears the removed identifier, and \<^verbatim>\<open>removeMessage\<close> with an identifier
  that no message bears changes nothing.
\<close>

theorem message_ids:
  "messages (addMessage now m t u) =
     messages u @ [\<lparr>msg_id = now, msg_message = m, msg_type = t\<rparr>]
   \<and> timeouts (addMessage now m t u) = timeouts u @ [(RemoveById now, 5000)]
   \<and> messages (addMessage now m' t' (addMessage now m t u)) =
       messages u @ [\<lparr>msg_id = now, msg_message = m, msg_type = t\<rparr>,
                     \<lparr>msg_id = now, msg_message = m', msg_type = t'\<rparr>]
   \<and> messages (removeMessage now (addMessage now m' t' (addMessage now m t u))) =
       filter (\<lambda>msg. msg_id msg \<noteq> now) (messages u)
   \<and> messages (fire (RemoveById now) (addMessage now m' t' (addMessage now m t u))) =
       filter (\<lambda>msg. msg_id msg \<noteq> now) (messages u)
   \<and> (\<forall>msg \<in> set (messages (removeMessage ident u)). msg_id msg \<noteq> ident)
   \<and> (\<forall>msg \<in> set (messages (fire (RemoveById ident) u)). msg_id msg \<noteq> ident)
   \<and> (ident \<notin> msg_id ` set (messages u) \<longrightarrow> removeMessage ident u = u)"
  by (simp add: addMessage_def removeMessage_def filter_absent)

theorem message_ids_witness:
  "messages (addMessage 1700000000000 ''Slot booked successfully!'' ''success''
       (addMessage 1700000000000 ''Passwords do not match'' ''error'' demo_ui)) =
     messages demo_ui @
       [\<lparr>msg_id = 1700000000000, msg_message = ''Passwords do not match'', msg_type = ''error''\<rparr>,
        \<lparr>msg_id = 1700000000000, msg_message = ''Slot booked successfully!'',
          msg_type = ''success''\<rparr>]
   \<and> messages (fire (RemoveById 1700000000000)
        (addMessage 1700000000000 ''Slot booked successfully!'' ''success''
          (addMessage 1700000000000 ''Passwords do not match'' ''error'' demo_ui))) =
       messages demo_ui
   \<and> 1700000000000 \<notin> msg_id ` set (messages demo_ui)
   \<and> removeMessage 1700000000000 demo_ui = demo_ui"
proof -
  have a: "1700000000000 \<notin> msg_id ` set (messages demo_ui)"
    by (simp add: demo_ui_def)
  note w = message_ids [of 1700000000000 "''Passwords do not match''" "''error''" demo_ui
      "''Slot booked successfully!''" "''success''" 1700000000000]
  have f: "filter (\<lambda>msg. msg_id msg \<noteq> 1700000000000) (messages demo_ui) = messages demo_ui"
    by (simp add: demo_ui_def)
  show ?thesis
    using w a f by simp
qed

end
